theory Spec2Isabelle
  imports Main "HOL-Library.Word"
begin

section \<open>The comparison driver of Kimera-RPGO (examples/Comparison.cpp)\<close>

text \<open>
  The driver reads its command line, selects a max-clique method, configures a
  \<open>RobustSolverParams\<close> object through its setters, loads a 2D g2o file and hands graph,
  values and parameters to \<open>Simulate\<close>, which adds a prior factor, calls \<open>update\<close> once and
  \<open>saveData\<close> once.

  The driver does no arithmetic on its \<open>double\<close>s: it passes them on or replaces them by
  \<open>std::numeric_limits<double>::max()\<close>. A \<open>double\<close> is therefore kept as its IEEE 754
  binary64 bit pattern.
\<close>

subsection \<open>Data\<close>

type_synonym double = "64 word"

text \<open>\<open>std::numeric_limits<double>::max()\<close>: sign 0, exponent 0x7FE, mantissa all ones.\<close>

definition double_max :: double where
  "double_max = 0x7FEFFFFFFFFFFFFF"

text \<open>The entries of \<open>Eigen::VectorXd::Zero(dim)\<close>: +0.0.\<close>

definition double_zero :: double where
  "double_zero = 0"

text \<open>
  The enumerations of \<open>KimeraRPGO/SolverParams.h\<close> and \<open>KimeraRPGO/logger.h\<close>, with the
  members the driver names.
\<close>

datatype MaxCliqueMethod = PMC_EXACT | PMC_HEU | CLIPPER

datatype Verbosity = VERBOSE | QUIET

datatype severity = INFO | WARNING

text \<open>
  Class \<open>RobustSolverParams\<close> is declared in \<open>KimeraRPGO/SolverParams.h\<close>, which is not part
  of the sources at hand. Its state is kept as the setter calls made on the
  default-constructed object, in program order. The argument names of the two PCM setters
  are the ones of the usage comment of the driver (line 24): \<open>pcm_odo_thresh\<close>,
  \<open>pcm_lc_thresh\<close> for \<open>setPcm2DParams\<close> and \<open>pcm_t_simple_thresh\<close>,
  \<open>pcm_R_simple_thresh\<close> for \<open>setPcmSimple2DParams\<close>.
\<close>

datatype param_call =
    LogOutput string
  | SetPcm2DParams (pcm_odo_thresh: double) (pcm_lc_thresh: double) Verbosity
  | SetPcmSimple2DParams (pcm_t_simple_thresh: double) (pcm_R_simple_thresh: double) Verbosity
  | SetMaxCliqueMethod MaxCliqueMethod
  | SetGncInlierCostThresholds double

type_synonym RobustSolverParams = "param_call list"

fun is_pcm_call :: "param_call \<Rightarrow> bool" where
  "is_pcm_call (SetPcm2DParams a b v) = True"
| "is_pcm_call (SetPcmSimple2DParams a b v) = True"
| "is_pcm_call c = False"


fun is_gnc_call :: "param_call \<Rightarrow> bool" where
  "is_gnc_call (SetGncInlierCostThresholds b) = True"
| "is_gnc_call c = False"

fun is_max_clique_call :: "param_call \<Rightarrow> bool" where
  "is_max_clique_call (SetMaxCliqueMethod m) = True"
| "is_max_clique_call c = False"

text \<open>The PCM, GNC and max-clique setter calls recorded in a parameter object.\<close>

definition pcm_calls :: "RobustSolverParams \<Rightarrow> param_call list" where
  "pcm_calls ps = filter is_pcm_call ps"

definition gnc_calls :: "RobustSolverParams \<Rightarrow> param_call list" where
  "gnc_calls ps = filter is_gnc_call ps"

definition max_clique_calls :: "RobustSolverParams \<Rightarrow> param_call list" where
  "max_clique_calls ps = filter is_max_clique_call ps"

text \<open>Factor graphs and values of gtsam, as far as the driver looks into them.\<close>

type_synonym Key = "64 word"

datatype Pose2 = Pose2 double double double

datatype noiseModel =
    Diagonal_Sigmas "double list"
  | Gaussian_Information "double list list"

datatype 'p factor =
    BetweenFactor Key Key 'p noiseModel
  | PriorFactor Key 'p noiseModel

text \<open>\<open>Factor::front()\<close>: the first key of a factor.\<close>

fun front :: "'p factor \<Rightarrow> Key" where
  "front (BetweenFactor k1 k2 p n) = k1"
| "front (PriorFactor k p n) = k"

type_synonym 'p NonlinearFactorGraph = "'p factor list"

type_synonym 'p Values = "Key \<rightharpoonup> 'p"

type_synonym 'p GraphAndValues = "'p NonlinearFactorGraph \<times> 'p Values"

text \<open>
  The calls the driver makes on the graph loader and on the solver, in program order.
  A call is recorded when it is made. The constructor and the two member functions of
  the solver are taken to return; \<open>load2D\<close> may throw.
\<close>

datatype 'p solver_call =
    Load2D string
  | RobustSolver RobustSolverParams
  | Update "'p NonlinearFactorGraph" "'p Values"
  | SaveData string

fun is_update :: "'p solver_call \<Rightarrow> bool" where
  "is_update (Update g v) = True"
| "is_update c = False"

fun is_saveData :: "'p solver_call \<Rightarrow> bool" where
  "is_saveData (SaveData f) = True"
| "is_saveData c = False"

text \<open>
  What ends a run early. The driver catches nothing, so each of these terminates the
  process: an \<open>argv\<close> entry that does not exist (a null pointer handed to
  \<open>std::string\<close> or \<open>atof\<close>), \<open>load2D\<close> throwing, \<open>nfg[0]\<close> on a graph without factors
  (\<open>std::out_of_range\<close> from the bounds-checked access behind gtsam's \<open>operator[]\<close>) and
  \<open>values.at\<close> on an absent key (gtsam's \<open>ValuesKeyDoesNotExist\<close>).
\<close>

datatype error =
    ArgvOutOfRange
  | Load2DFailed
  | FactorIndexOutOfRange
  | ValuesKeyDoesNotExist

subsection \<open>What the solver makes of the PCM thresholds\<close>





subsection \<open>Simulate (lines 28 to 55)\<close>

text \<open>
  The template parameter \<open>T\<close> is the type variable \<open>'p\<close>; \<open>getDim\<close> stands for the value
  of \<open>getDim<T>()\<close>. The local \<open>init_values\<close> and \<open>init_factors\<close> are never read; what
  remains of them is that \<open>values.at<T>(current_key)\<close> must succeed.
\<close>

definition Simulate ::
  "nat \<Rightarrow> 'p GraphAndValues \<Rightarrow> RobustSolverParams \<Rightarrow> string
     \<Rightarrow> 'p solver_call list \<times> error option" where
  "Simulate getDim gv params output_folder =
     (let nfg = fst gv;
          values = snd gv;
          pgo = [RobustSolver params];
          dim = getDim;
          noise = replicate dim double_zero;
          init_noise = Diagonal_Sigmas noise
      in case nfg of
           [] \<Rightarrow> (pgo, Some FactorIndexOutOfRange)
         | f # fs \<Rightarrow>
             let current_key = front f
             in (case values current_key of
                   None \<Rightarrow> (pgo, Some ValuesKeyDoesNotExist)
                 | Some v \<Rightarrow>
                     let prior_factor = PriorFactor current_key v init_noise;
                         nfg = nfg @ [prior_factor]
                     in (pgo @ [Update nfg values, SaveData output_folder], None)))"

subsection \<open>main (lines 57 to 169)\<close>

text \<open>
  What the process gets from outside: \<open>atof\<close> of the C library and the file system as
  \<open>gtsam::load2D\<close> reads it (with the fixed further arguments of line 162 to 167);
  \<open>None\<close> when \<open>load2D\<close> throws.
\<close>

record env =
  atof :: "string \<Rightarrow> double"
  load2D :: "string \<Rightarrow> Pose2 GraphAndValues option"

type_synonym log_entry = "severity \<times> string"

record main_state =
  logger :: "log_entry list"
  params :: RobustSolverParams

definition log :: "severity \<Rightarrow> string \<Rightarrow> main_state \<Rightarrow> main_state" where
  "log lvl msg s = s\<lparr>logger := logger s @ [(lvl, msg)]\<rparr>"

definition logOutput :: "string \<Rightarrow> main_state \<Rightarrow> main_state" where
  "logOutput folder s = s\<lparr>params := params s @ [LogOutput folder]\<rparr>"

definition setPcm2DParams :: "double \<Rightarrow> double \<Rightarrow> Verbosity \<Rightarrow> main_state \<Rightarrow> main_state" where
  "setPcm2DParams odo lc v s = s\<lparr>params := params s @ [SetPcm2DParams odo lc v]\<rparr>"

definition setPcmSimple2DParams ::
  "double \<Rightarrow> double \<Rightarrow> Verbosity \<Rightarrow> main_state \<Rightarrow> main_state" where
  "setPcmSimple2DParams t R v s = s\<lparr>params := params s @ [SetPcmSimple2DParams t R v]\<rparr>"

definition setMaxCliqueMethod :: "MaxCliqueMethod \<Rightarrow> main_state \<Rightarrow> main_state" where
  "setMaxCliqueMethod m s = s\<lparr>params := params s @ [SetMaxCliqueMethod m]\<rparr>"

definition setGncInlierCostThresholds :: "double \<Rightarrow> main_state \<Rightarrow> main_state" where
  "setGncInlierCostThresholds b s = s\<lparr>params := params s @ [SetGncInlierCostThresholds b]\<rparr>"

text \<open>Lines 67 to 82: the max-clique method and what is logged on the way.\<close>

definition select_max_clique_method :: "string \<Rightarrow> main_state \<Rightarrow> MaxCliqueMethod \<times> main_state" where
  "select_max_clique_method max_clique_method_str s =
     (if max_clique_method_str = ''pmc_exact'' then
        (PMC_EXACT, log INFO ''Max Clique Solver: PMC (Exact)'' s)
      else if max_clique_method_str = ''pmc_heu'' then
        (PMC_HEU, log INFO ''Max Clique Solver: PMC (Heuristic)'' s)
      else if max_clique_method_str = ''clipper'' then
        (CLIPPER, log INFO ''Max Clique Solver: Clipper'' s)
      else
        (PMC_HEU,
         log INFO ''Max Clique Solver: PMC (Heuristic)''
           (log WARNING
              ''Unsupported Max Clique Method (options are: pmc_exct, pmc_heu, clipper) '' s)))"

text \<open>Lines 84 to 97: output folder and verbosity.\<close>

definition output_folder_arg :: "string list \<Rightarrow> string" where
  "output_folder_arg argv = (if length argv > 8 then argv ! 8 else [])"

definition verbosity_arg :: "string list \<Rightarrow> Verbosity" where
  "verbosity_arg argv =
     (let verbose = (length argv > 9 \<and> argv ! 9 = ''v'')
      in if \<not> verbose then QUIET else VERBOSE)"

text \<open>Lines 100 to 159: the PCM and GNC options.\<close>

definition configure ::
  "string \<Rightarrow> string \<Rightarrow> double \<Rightarrow> double \<Rightarrow> double \<Rightarrow> MaxCliqueMethod \<Rightarrow> Verbosity
     \<Rightarrow> main_state \<Rightarrow> main_state" where
  "configure pcm_str gnc_str pcm_t pcm_R gnc_barcsq max_clique_method verbosity s =
     (if pcm_str = ''NoPCM'' then
        let pcm_t = double_max;
            pcm_R = double_max;
            s = setPcm2DParams pcm_t pcm_R verbosity s;
            s = setMaxCliqueMethod max_clique_method s
        in if gnc_str = ''NoGNC'' then
             let s = log INFO ''Options: NONE'' s;
                 gnc_barcsq = double_max
             in setGncInlierCostThresholds gnc_barcsq s
           else if gnc_str = ''GNC'' then
             let s = log INFO ''Options: GNC'' s
             in setGncInlierCostThresholds gnc_barcsq s
           else log WARNING ''Unsupported GNC option'' s
      else if pcm_str = ''PCM2dSimp'' then
        let s = setPcmSimple2DParams pcm_t pcm_R verbosity s;
            s = setMaxCliqueMethod max_clique_method s
        in if gnc_str = ''NoGNC'' then
             let s = log INFO ''Options: PCM Simple'' s;
                 gnc_barcsq = double_max
             in setGncInlierCostThresholds gnc_barcsq s
           else if gnc_str = ''GNC'' then
             let s = log INFO ''Options: PCM Simple + GNC'' s
             in setGncInlierCostThresholds gnc_barcsq s
           else log WARNING ''Unsupported GNC option'' s
      else if pcm_str = ''PCM2dOrig'' then
        let s = setPcm2DParams pcm_t pcm_R verbosity s;
            s = setMaxCliqueMethod max_clique_method s
        in if gnc_str = ''NoGNC'' then
             let s = log INFO ''Options: PCM Orig'' s;
                 gnc_barcsq = double_max
             in setGncInlierCostThresholds gnc_barcsq s
           else if gnc_str = ''GNC'' then
             let s = log INFO ''Options: PCM Orig + GNC'' s
             in setGncInlierCostThresholds gnc_barcsq s
           else log WARNING ''Unsupported GNC option'' s
      else log WARNING ''Unsupported PCM option'' s)"

text \<open>
  Modelled from the spec: \<open>getDim\<close> is declared in \<open>KimeraRPGO/utils/type_utils.h\<close>,
  which is not part of the sources at hand. This is \<open>getDim<gtsam::Pose2>()\<close>: a 2D pose
  is (x, y, heading), three numbers.
\<close>

definition getDim_Pose2 :: nat where
  "getDim_Pose2 = 3"

text \<open>
  The outcome of a run: what was logged, the parameter object as it is when the
  configuration is over, the loader and solver calls, and what ended the run early, if
  anything did.
\<close>

record run =
  run_logger :: "log_entry list"
  run_params :: RobustSolverParams
  calls :: "Pose2 solver_call list"
  status :: "error option"

text \<open>
  \<open>argv\<close> is the list of the \<open>argc\<close> arguments, the program name first. Lines 59 to 65
  read \<open>argv[1]\<close> to \<open>argv[7]\<close> before anything else happens; with fewer than eight
  entries one of them is the terminating null pointer or beyond it.
\<close>

definition main :: "env \<Rightarrow> string list \<Rightarrow> run" where
  "main e argv =
     (let argc = length argv
      in if argc < 8 then
           \<lparr>run_logger = [], run_params = [], calls = [], status = Some ArgvOutOfRange\<rparr>
         else
           let pcm_str = argv ! 1;
               gnc_str = argv ! 2;
               g2ofile = argv ! 3;
               pcm_t = atof e (argv ! 4);
               pcm_R = atof e (argv ! 5);
               gnc_barcsq = atof e (argv ! 6);
               max_clique_method_str = argv ! 7;
               s = \<lparr>logger = [], params = []\<rparr>;
               (max_clique_method, s) = select_max_clique_method max_clique_method_str s;
               output_folder = output_folder_arg argv;
               s = logOutput output_folder s;
               verbosity = verbosity_arg argv;
               s = configure pcm_str gnc_str pcm_t pcm_R gnc_barcsq max_clique_method
                     verbosity s
           in case load2D e g2ofile of
                None \<Rightarrow>
                  \<lparr>run_logger = logger s, run_params = params s,
                   calls = [Load2D g2ofile], status = Some Load2DFailed\<rparr>
              | Some graphNValues \<Rightarrow>
                  let (cs, st) = Simulate getDim_Pose2 graphNValues (params s) output_folder
                  in \<lparr>run_logger = logger s, run_params = params s,
                      calls = Load2D g2ofile # cs, status = st\<rparr>)"

subsection \<open>A command line and a file system to run the driver on\<close>

text \<open>
  Two odometry edges between the poses 0 and 1, \<open>atof\<close> on the three numerals used below
  (1.0 is 0x3FF0000000000000, 0.5 is 0x3FE0000000000000), and a file system with one
  graph file, one file without edges and nothing else.
\<close>

definition example_graph :: "Pose2 NonlinearFactorGraph" where
  "example_graph =
     [BetweenFactor 0 1 (Pose2 0x3FF0000000000000 0 0) (Gaussian_Information []),
      BetweenFactor 1 0 (Pose2 0xBFF0000000000000 0 0) (Gaussian_Information [])]"

definition example_values :: "Pose2 Values" where
  "example_values = [0 \<mapsto> Pose2 0 0 0, 1 \<mapsto> Pose2 0x3FF0000000000000 0 0]"

definition example_env :: env where
  "example_env =
     \<lparr>atof = (\<lambda>s. if s = ''1.0'' then 0x3FF0000000000000
                  else if s = ''0.5'' then 0x3FE0000000000000 else 0),
      load2D = (\<lambda>f. if f = ''in.g2o'' then Some (example_graph, example_values)
                    else if f = ''empty.g2o'' then Some ([], Map.empty) else None)\<rparr>"

definition example_argv :: "string list" where
  "example_argv =
     [''./Comparison'', ''PCM2dSimp'', ''GNC'', ''in.g2o'', ''1.0'', ''0.5'', ''1.0'',
      ''pmc_exact'', ''out'', ''v'']"

text \<open>
  A graph whose first factor starts at key 7 and ends at key 3, with values for the keys
  0, 3 and 7 that differ from each other (1.0, 0.5 and 2.0 are 0x3FF0000000000000,
  0x3FE0000000000000 and 0x4000000000000000).
\<close>

definition anchor_graph :: "Pose2 NonlinearFactorGraph" where
  "anchor_graph =
     [BetweenFactor 7 3 (Pose2 0x3FF0000000000000 0 0) (Gaussian_Information []),
      BetweenFactor 0 7 (Pose2 0 0x3FF0000000000000 0) (Gaussian_Information [])]"

definition anchor_values :: "Pose2 Values" where
  "anchor_values =
     [0 \<mapsto> Pose2 0 0 0,
      3 \<mapsto> Pose2 0x4000000000000000 0x3FE0000000000000 0,
      7 \<mapsto> Pose2 0x3FF0000000000000 0x3FE0000000000000 0x4000000000000000]"

text \<open>
  The second command line of the usage comment (lines 25 and 26): \<open>3d\<close>, then the graph
  file, the two PCM thresholds, the GNC threshold, the max-clique method, the output and
  the verbosity flag.
\<close>

definition usage_3d_argv :: "string list" where
  "usage_3d_argv =
     [''./RpgoReadG2o'', ''3d'', ''sphere.g2o'', ''1.0'', ''0.5'', ''1.0'', ''pmc_heu'',
      ''out'', ''v'']"

section \<open>Properties\<close>

subsection \<open>Auxiliary facts\<close>

lemmas setter_defs = log_def logOutput_def setPcm2DParams_def setPcmSimple2DParams_def
  setMaxCliqueMethod_def setGncInlierCostThresholds_def

lemma example_argv_length: "length example_argv = 10"
  by (simp add: example_argv_def)

lemma params_select [simp]: "params (snd (select_max_clique_method t s)) = params s"
  by (simp add: select_max_clique_method_def log_def)

lemma select_unsupported:
  "tok \<notin> {''pmc_exact'', ''pmc_heu'', ''clipper''} \<Longrightarrow>
   select_max_clique_method tok s =
     (PMC_HEU,
      s\<lparr>logger := logger s @
         [(WARNING, ''Unsupported Max Clique Method (options are: pmc_exct, pmc_heu, clipper) ''),
          (INFO, ''Max Clique Solver: PMC (Heuristic)'')]\<rparr>)"
  by (simp add: select_max_clique_method_def log_def)

lemma fst_select_unsupported:
  "tok \<notin> {''pmc_exact'', ''pmc_heu'', ''clipper''} \<Longrightarrow>
   fst (select_max_clique_method tok s) = fst (select_max_clique_method ''pmc_heu'' s)"
  by (simp add: select_max_clique_method_def log_def)

text \<open>What \<open>main\<close> returns when \<open>argv[1]\<close> to \<open>argv[7]\<close> exist.\<close>

lemma run_params_main:
  "8 \<le> length argv \<Longrightarrow>
   run_params (main e argv) =
     params (configure (argv ! 1) (argv ! 2) (atof e (argv ! 4)) (atof e (argv ! 5))
       (atof e (argv ! 6))
       (fst (select_max_clique_method (argv ! 7) \<lparr>logger = [], params = []\<rparr>))
       (verbosity_arg argv)
       (logOutput (output_folder_arg argv)
          (snd (select_max_clique_method (argv ! 7) \<lparr>logger = [], params = []\<rparr>))))"
  by (simp add: main_def Let_def split: prod.splits option.splits)

lemma run_logger_main:
  "8 \<le> length argv \<Longrightarrow>
   run_logger (main e argv) =
     logger (configure (argv ! 1) (argv ! 2) (atof e (argv ! 4)) (atof e (argv ! 5))
       (atof e (argv ! 6))
       (fst (select_max_clique_method (argv ! 7) \<lparr>logger = [], params = []\<rparr>))
       (verbosity_arg argv)
       (logOutput (output_folder_arg argv)
          (snd (select_max_clique_method (argv ! 7) \<lparr>logger = [], params = []\<rparr>))))"
  by (simp add: main_def Let_def split: prod.splits option.splits)

lemma calls_main:
  "8 \<le> length argv \<Longrightarrow>
   calls (main e argv) =
     Load2D (argv ! 3) #
       (case load2D e (argv ! 3) of None \<Rightarrow> []
        | Some gv \<Rightarrow>
            fst (Simulate getDim_Pose2 gv (run_params (main e argv)) (output_folder_arg argv)))"
  by (simp add: main_def Let_def split: prod.splits option.splits)

lemma status_main:
  "8 \<le> length argv \<Longrightarrow>
   status (main e argv) =
     (case load2D e (argv ! 3) of None \<Rightarrow> Some Load2DFailed
      | Some gv \<Rightarrow>
          snd (Simulate getDim_Pose2 gv (run_params (main e argv)) (output_folder_arg argv)))"
  by (simp add: main_def Let_def split: prod.splits option.splits)

text \<open>The parameter object after \<open>configure\<close>, branch by branch.\<close>

lemma params_logOutput_select:
  "params (logOutput f (snd (select_max_clique_method t s))) = params s @ [LogOutput f]"
  by (simp add: logOutput_def)

lemma params_configure_cong:
  "params s = params s' \<Longrightarrow>
   params (configure p g t R b m v s) = params (configure p g t R b m v s')"
  by (simp add: configure_def setter_defs Let_def)

lemma gnc_calls_configure_NoGNC:
  "pcm_str \<in> {''NoPCM'', ''PCM2dSimp'', ''PCM2dOrig''} \<Longrightarrow>
   gnc_calls (params (configure pcm_str ''NoGNC'' t R b m v s)) =
     gnc_calls (params s) @ [SetGncInlierCostThresholds double_max]"
  by (auto simp add: configure_def setter_defs gnc_calls_def Let_def)

lemma gnc_calls_configure_GNC:
  "pcm_str \<in> {''NoPCM'', ''PCM2dSimp'', ''PCM2dOrig''} \<Longrightarrow>
   gnc_calls (params (configure pcm_str ''GNC'' t R b m v s)) =
     gnc_calls (params s) @ [SetGncInlierCostThresholds b]"
  by (auto simp add: configure_def setter_defs gnc_calls_def Let_def)

lemma gnc_calls_configure_unsupported:
  "gnc_str \<notin> {''NoGNC'', ''GNC''} \<Longrightarrow>
   gnc_calls (params (configure pcm_str gnc_str t R b m v s)) = gnc_calls (params s)"
  by (auto simp add: configure_def setter_defs gnc_calls_def Let_def)

lemma logger_configure_gnc_unsupported:
  "pcm_str \<in> {''NoPCM'', ''PCM2dSimp'', ''PCM2dOrig''} \<Longrightarrow>
   gnc_str \<notin> {''NoGNC'', ''GNC''} \<Longrightarrow>
   logger (configure pcm_str gnc_str t R b m v s) =
     logger s @ [(WARNING, ''Unsupported GNC option'')]"
  by (auto simp add: configure_def setter_defs Let_def)

lemma pcm_calls_configure_NoPCM:
  "pcm_calls (params (configure ''NoPCM'' gnc_str t R b m v s)) =
     pcm_calls (params s) @ [SetPcm2DParams double_max double_max v]"
  by (simp add: configure_def setter_defs pcm_calls_def Let_def)

lemma pcm_calls_configure_PCM2dOrig:
  "pcm_calls (params (configure ''PCM2dOrig'' gnc_str t R b m v s)) =
     pcm_calls (params s) @ [SetPcm2DParams t R v]"
  by (simp add: configure_def setter_defs pcm_calls_def Let_def)

lemma pcm_calls_configure_PCM2dSimp:
  "pcm_calls (params (configure ''PCM2dSimp'' gnc_str t R b m v s)) =
     pcm_calls (params s) @ [SetPcmSimple2DParams t R v]"
  by (simp add: configure_def setter_defs pcm_calls_def Let_def)

lemma configure_unsupported_pcm:
  "pcm_str \<notin> {''NoPCM'', ''PCM2dSimp'', ''PCM2dOrig''} \<Longrightarrow>
   configure pcm_str gnc_str t R b m v s = log WARNING ''Unsupported PCM option'' s"
  by (simp add: configure_def)

lemma run_params_unsupported_method:
  assumes "8 \<le> length argv" and "tok \<notin> {''pmc_exact'', ''pmc_heu'', ''clipper''}"
  shows "run_params (main e (argv[7 := tok])) = run_params (main e (argv[7 := ''pmc_heu'']))"
proof -
  have len: "8 \<le> length (argv[7 := t])" for t
    using assms(1) by simp
  have out: "output_folder_arg (argv[7 := t]) = output_folder_arg argv" for t
    by (simp add: output_folder_arg_def)
  have vb: "verbosity_arg (argv[7 := t]) = verbosity_arg argv" for t
    by (simp add: verbosity_arg_def)
  have at7: "(argv[7 := t]) ! 7 = t" for t
    using assms(1) by simp
  show ?thesis
    using assms(1)
    by (simp only: run_params_main [OF len] out vb at7 fst_select_unsupported [OF assms(2)])
       (simp add: params_configure_cong
          [OF trans [OF params_logOutput_select params_logOutput_select [symmetric]]])
qed

lemma pcm_calls_logOutput_select:
  "pcm_calls (params (logOutput f (snd (select_max_clique_method t \<lparr>logger = [], params = []\<rparr>)))) = []"
  by (simp add: logOutput_def pcm_calls_def)

lemma gnc_calls_logOutput_select:
  "gnc_calls (params (logOutput f (snd (select_max_clique_method t \<lparr>logger = [], params = []\<rparr>)))) = []"
  by (simp add: logOutput_def gnc_calls_def)

lemma run_params_unsupported_pcm:
  assumes "8 \<le> length argv" and "argv ! 1 \<notin> {''NoPCM'', ''PCM2dSimp'', ''PCM2dOrig''}"
  shows "run_params (main e argv) = [LogOutput (output_folder_arg argv)]"
  by (simp only: run_params_main [OF assms(1)] configure_unsupported_pcm [OF assms(2)])
     (simp add: log_def logOutput_def)

lemma run_logger_unsupported_pcm:
  assumes "8 \<le> length argv" and "argv ! 1 \<notin> {''NoPCM'', ''PCM2dSimp'', ''PCM2dOrig''}"
  shows "run_logger (main e argv) =
           logger (snd (select_max_clique_method (argv ! 7) \<lparr>logger = [], params = []\<rparr>)) @
             [(WARNING, ''Unsupported PCM option'')]"
  by (simp only: run_logger_main [OF assms(1)] configure_unsupported_pcm [OF assms(2)])
     (simp add: log_def logOutput_def)

lemma max_clique_calls_configure:
  "pcm_str \<in> {''NoPCM'', ''PCM2dSimp'', ''PCM2dOrig''} \<Longrightarrow>
   max_clique_calls (params (configure pcm_str gnc_str t R b m v s)) =
     max_clique_calls (params s) @ [SetMaxCliqueMethod m]"
  by (auto simp add: configure_def setter_defs max_clique_calls_def Let_def)

lemma max_clique_calls_logOutput_select:
  "max_clique_calls
     (params (logOutput f (snd (select_max_clique_method t \<lparr>logger = [], params = []\<rparr>)))) = []"
  by (simp add: logOutput_def max_clique_calls_def)

lemma max_clique_calls_main:
  assumes "8 \<le> length argv" and "argv ! 1 \<in> {''NoPCM'', ''PCM2dSimp'', ''PCM2dOrig''}"
  shows "max_clique_calls (run_params (main e argv)) =
           [SetMaxCliqueMethod
              (fst (select_max_clique_method (argv ! 7) \<lparr>logger = [], params = []\<rparr>))]"
  by (simp only: run_params_main [OF assms(1)] max_clique_calls_configure [OF assms(2)]
        max_clique_calls_logOutput_select append_Nil)

text \<open>\<open>Simulate\<close>, case by case; the solver is built from the configured parameters.\<close>

lemma Simulate_empty:
  "Simulate d ([], vs) ps out = ([RobustSolver ps], Some FactorIndexOutOfRange)"
  by (simp add: Simulate_def)

lemma Simulate_no_value:
  "vs (front f) = None \<Longrightarrow>
   Simulate d (f # fs, vs) ps out = ([RobustSolver ps], Some ValuesKeyDoesNotExist)"
  by (simp add: Simulate_def)

lemma Simulate_value:
  "vs (front f) = Some p \<Longrightarrow>
   Simulate d (f # fs, vs) ps out =
     ([RobustSolver ps,
       Update ((f # fs) @ [PriorFactor (front f) p (Diagonal_Sigmas (replicate d double_zero))]) vs,
       SaveData out], None)"
  by (simp add: Simulate_def)

lemma solver_gets_run_params:
  assumes "8 \<le> length argv" and "RobustSolver ps \<in> set (calls (main e argv))"
  shows "ps = run_params (main e argv)"
proof -
  from assms obtain gv :: "Pose2 GraphAndValues" where
    mem: "RobustSolver ps \<in> set (fst (Simulate getDim_Pose2 gv (run_params (main e argv))
                                    (output_folder_arg argv)))"
    by (auto simp add: calls_main split: option.splits)
  obtain nfg vs where gv: "gv = (nfg, vs)"
    by (cases gv)
  show ?thesis
  proof (cases nfg)
    case Nil
    with mem gv show ?thesis
      by (simp add: Simulate_empty)
  next
    case (Cons f fs)
    with mem gv show ?thesis
      by (cases "vs (front f)") (simp_all add: Simulate_no_value Simulate_value)
  qed
qed

text \<open>The calls of a run on the example graph.\<close>

lemma example_run_calls:
  assumes "8 \<le> length argv" and "argv ! 3 = ''in.g2o''"
  shows "calls (main example_env argv) =
     [Load2D ''in.g2o'', RobustSolver (run_params (main example_env argv)),
      Update (example_graph @ [PriorFactor 0 (Pose2 0 0 0) (Diagonal_Sigmas [0, 0, 0])])
        example_values,
      SaveData (output_folder_arg argv)]"
  by (simp only: calls_main [OF assms(1)] assms(2))
     (simp add: example_env_def example_graph_def example_values_def Simulate_def
        getDim_Pose2_def double_zero_def numeral_3_eq_3)




subsection \<open>The max-clique method (lines 67 to 82)\<close>

text \<open>
  Claim C1. A max-clique token other than \<open>pmc_exact\<close>, \<open>pmc_heu\<close> and \<open>clipper\<close> does not
  end the run: the selection logs a warning and yields \<open>PMC_HEU\<close>, and the run then has
  the parameter object, the loader and solver calls and the outcome of the run with
  \<open>pmc_heu\<close> in its place. The three recognized tokens select \<open>PMC_EXACT\<close>, \<open>PMC_HEU\<close> and
  \<open>CLIPPER\<close>. In a recognized PCM mode the selected method is the one handed to
  \<open>setMaxCliqueMethod\<close>.
\<close>

theorem max_clique_method_selection:
  assumes "8 \<le> length argv" and "tok \<notin> {''pmc_exact'', ''pmc_heu'', ''clipper''}"
  shows "select_max_clique_method tok s =
           (PMC_HEU,
            s\<lparr>logger := logger s @
               [(WARNING,
                 ''Unsupported Max Clique Method (options are: pmc_exct, pmc_heu, clipper) ''),
                (INFO, ''Max Clique Solver: PMC (Heuristic)'')]\<rparr>)
       \<and> run_params (main e (argv[7 := tok])) = run_params (main e (argv[7 := ''pmc_heu'']))
       \<and> calls (main e (argv[7 := tok])) = calls (main e (argv[7 := ''pmc_heu'']))
       \<and> status (main e (argv[7 := tok])) = status (main e (argv[7 := ''pmc_heu'']))
       \<and> fst (select_max_clique_method ''pmc_exact'' s) = PMC_EXACT
       \<and> fst (select_max_clique_method ''pmc_heu'' s) = PMC_HEU
       \<and> fst (select_max_clique_method ''clipper'' s) = CLIPPER
       \<and> (argv ! 1 \<in> {''NoPCM'', ''PCM2dSimp'', ''PCM2dOrig''} \<longrightarrow>
            max_clique_calls (run_params (main e (argv[7 := tok]))) =
              [SetMaxCliqueMethod PMC_HEU]
            \<and> max_clique_calls (run_params (main e (argv[7 := ''pmc_exact'']))) =
              [SetMaxCliqueMethod PMC_EXACT]
            \<and> max_clique_calls (run_params (main e (argv[7 := ''pmc_heu'']))) =
              [SetMaxCliqueMethod PMC_HEU]
            \<and> max_clique_calls (run_params (main e (argv[7 := ''clipper'']))) =
              [SetMaxCliqueMethod CLIPPER])"
proof -
  have len: "8 \<le> length (argv[7 := t])" for t
    using assms(1) by simp
  have out: "output_folder_arg (argv[7 := t]) = output_folder_arg argv" for t
    by (simp add: output_folder_arg_def)
  have g2o: "(argv[7 := t]) ! 3 = argv ! 3" for t
    by simp
  have at7: "(argv[7 := t]) ! 7 = t" for t
    using assms(1) by simp
  note ps = run_params_unsupported_method [OF assms, of e]
  have cs: "calls (main e (argv[7 := tok])) = calls (main e (argv[7 := ''pmc_heu'']))"
    by (simp only: calls_main [OF len] ps out g2o)
  have st: "status (main e (argv[7 := tok])) = status (main e (argv[7 := ''pmc_heu'']))"
    by (simp only: status_main [OF len] ps out g2o)
  have sel: "fst (select_max_clique_method ''pmc_exact'' s') = PMC_EXACT"
    "fst (select_max_clique_method ''pmc_heu'' s') = PMC_HEU"
    "fst (select_max_clique_method ''clipper'' s') = CLIPPER" for s'
    by (simp_all add: select_max_clique_method_def)
  have passed: "max_clique_calls (run_params (main e (argv[7 := t]))) =
       [SetMaxCliqueMethod
          (fst (select_max_clique_method t \<lparr>logger = [], params = []\<rparr>))]"
    if "argv ! 1 \<in> {''NoPCM'', ''PCM2dSimp'', ''PCM2dOrig''}" for t
  proof -
    from that have "(argv[7 := t]) ! 1 \<in> {''NoPCM'', ''PCM2dSimp'', ''PCM2dOrig''}"
      by simp
    from max_clique_calls_main [OF len this] show ?thesis
      by (simp only: at7)
  qed
  have heu: "fst (select_max_clique_method tok s') = PMC_HEU" for s'
    by (simp add: select_unsupported [OF assms(2)])
  show ?thesis
    using select_unsupported [OF assms(2), of s] ps cs st sel passed
    by (simp add: heu)
qed

theorem max_clique_method_selection_witness:
  "8 \<le> length example_argv \<and> ''pmc_exct'' \<notin> {''pmc_exact'', ''pmc_heu'', ''clipper''}
   \<and> example_argv ! 1 \<in> {''NoPCM'', ''PCM2dSimp'', ''PCM2dOrig''}
   \<and> select_max_clique_method ''pmc_exct'' \<lparr>logger = [], params = []\<rparr> =
       (PMC_HEU,
        \<lparr>logger =
           [(WARNING,
             ''Unsupported Max Clique Method (options are: pmc_exct, pmc_heu, clipper) ''),
            (INFO, ''Max Clique Solver: PMC (Heuristic)'')],
         params = []\<rparr>)
   \<and> max_clique_calls (run_params (main example_env (example_argv[7 := ''pmc_exct'']))) =
       [SetMaxCliqueMethod PMC_HEU]
   \<and> status (main example_env (example_argv[7 := ''pmc_exct''])) = None"
proof -
  have len: "8 \<le> length (example_argv[7 := ''pmc_heu''])"
    by (simp add: example_argv_def)
  have st: "status (main example_env (example_argv[7 := ''pmc_heu''])) = None"
    by (simp only: status_main [OF len])
       (simp add: example_argv_def example_env_def example_graph_def example_values_def
          Simulate_def)
  show ?thesis
    using max_clique_method_selection
      [of example_argv "''pmc_exct''" "\<lparr>logger = [], params = []\<rparr>" example_env] st
    by (simp add: example_argv_length) (simp add: example_argv_def)
qed

subsection \<open>The PCM and GNC options (lines 100 to 159)\<close>




text \<open>
  Claim C3. In each of the three recognized PCM modes, \<open>NoGNC\<close> makes the single call of
  the GNC setter with the maximal double, whatever \<open>argv[6]\<close> is, and \<open>GNC\<close> makes it with
  \<open>atof(argv[6])\<close>; the solver is built from the parameter object that holds this call.
\<close>

theorem gnc_inlier_cost_threshold:
  assumes "8 \<le> length argv" and "argv ! 1 \<in> {''NoPCM'', ''PCM2dSimp'', ''PCM2dOrig''}"
  shows "gnc_calls (run_params (main e (argv[2 := ''NoGNC'']))) =
           [SetGncInlierCostThresholds double_max]
       \<and> (\<forall>ps. RobustSolver ps \<in> set (calls (main e (argv[2 := ''NoGNC'']))) \<longrightarrow>
            gnc_calls ps = [SetGncInlierCostThresholds double_max])
       \<and> gnc_calls (run_params (main e (argv[2 := ''GNC'']))) =
           [SetGncInlierCostThresholds (atof e (argv ! 6))]
       \<and> (\<forall>ps. RobustSolver ps \<in> set (calls (main e (argv[2 := ''GNC'']))) \<longrightarrow>
            gnc_calls ps = [SetGncInlierCostThresholds (atof e (argv ! 6))])"
proof -
  have len: "8 \<le> length (argv[2 := g])" for g
    using assms(1) by simp
  have pcm: "(argv[2 := g]) ! 1 \<in> {''NoPCM'', ''PCM2dSimp'', ''PCM2dOrig''}" for g
    using assms(2) by simp
  have gnc: "(argv[2 := g]) ! 2 = g" for g
    using assms(1) by simp
  have b: "(argv[2 := g]) ! 6 = argv ! 6" for g
    by simp
  have off: "gnc_calls (run_params (main e (argv[2 := ''NoGNC'']))) =
           [SetGncInlierCostThresholds double_max]"
    by (simp only: run_params_main [OF len] gnc gnc_calls_configure_NoGNC [OF pcm]
          gnc_calls_logOutput_select append_Nil)
  have on: "gnc_calls (run_params (main e (argv[2 := ''GNC'']))) =
           [SetGncInlierCostThresholds (atof e (argv ! 6))]"
    by (simp only: run_params_main [OF len] gnc b gnc_calls_configure_GNC [OF pcm]
          gnc_calls_logOutput_select append_Nil)
  show ?thesis
    using off on solver_gets_run_params [OF len] by blast
qed

theorem gnc_inlier_cost_threshold_witness:
  "8 \<le> length example_argv \<and> example_argv ! 1 \<in> {''NoPCM'', ''PCM2dSimp'', ''PCM2dOrig''}
   \<and> RobustSolver
        [LogOutput ''out'', SetPcmSimple2DParams 0x3FF0000000000000 0x3FE0000000000000 VERBOSE,
         SetMaxCliqueMethod PMC_EXACT, SetGncInlierCostThresholds 0x7FEFFFFFFFFFFFFF]
       \<in> set (calls (main example_env (example_argv[2 := ''NoGNC''])))
   \<and> gnc_calls (run_params (main example_env (example_argv[2 := ''NoGNC'']))) =
       [SetGncInlierCostThresholds 0x7FEFFFFFFFFFFFFF]
   \<and> RobustSolver
        [LogOutput ''out'', SetPcmSimple2DParams 0x3FF0000000000000 0x3FE0000000000000 VERBOSE,
         SetMaxCliqueMethod PMC_EXACT, SetGncInlierCostThresholds 0x3FF0000000000000]
       \<in> set (calls (main example_env (example_argv[2 := ''GNC''])))
   \<and> gnc_calls (run_params (main example_env (example_argv[2 := ''GNC'']))) =
       [SetGncInlierCostThresholds 0x3FF0000000000000]"
proof -
  have len: "8 \<le> length (example_argv[2 := g])" for g
    by (simp add: example_argv_def)
  have g2o: "(example_argv[2 := g]) ! 3 = ''in.g2o''" for g
    by (simp add: example_argv_def)
  have ps': "run_params (main example_env (example_argv[2 := ''GNC''])) =
        [LogOutput ''out'', SetPcmSimple2DParams 0x3FF0000000000000 0x3FE0000000000000 VERBOSE,
         SetMaxCliqueMethod PMC_EXACT, SetGncInlierCostThresholds 0x3FF0000000000000]"
    by (simp only: run_params_main [OF len])
       (simp add: example_argv_def example_env_def configure_def setter_defs Let_def
          select_max_clique_method_def output_folder_arg_def verbosity_arg_def)
  have built': "RobustSolver
        [LogOutput ''out'', SetPcmSimple2DParams 0x3FF0000000000000 0x3FE0000000000000 VERBOSE,
         SetMaxCliqueMethod PMC_EXACT, SetGncInlierCostThresholds 0x3FF0000000000000]
       \<in> set (calls (main example_env (example_argv[2 := ''GNC''])))"
    by (simp only: example_run_calls [OF len g2o] ps') simp
  have ps: "run_params (main example_env (example_argv[2 := ''NoGNC''])) =
        [LogOutput ''out'', SetPcmSimple2DParams 0x3FF0000000000000 0x3FE0000000000000 VERBOSE,
         SetMaxCliqueMethod PMC_EXACT, SetGncInlierCostThresholds 0x7FEFFFFFFFFFFFFF]"
    by (simp only: run_params_main [OF len])
       (simp add: example_argv_def example_env_def configure_def setter_defs Let_def
          select_max_clique_method_def output_folder_arg_def verbosity_arg_def double_max_def)
  have built: "RobustSolver
        [LogOutput ''out'', SetPcmSimple2DParams 0x3FF0000000000000 0x3FE0000000000000 VERBOSE,
         SetMaxCliqueMethod PMC_EXACT, SetGncInlierCostThresholds 0x7FEFFFFFFFFFFFFF]
       \<in> set (calls (main example_env (example_argv[2 := ''NoGNC''])))"
    by (simp only: example_run_calls [OF len g2o] ps) simp
  show ?thesis
    using gnc_inlier_cost_threshold [of example_argv example_env] built built'
    by (simp add: example_argv_def example_env_def double_max_def)
qed

text \<open>
  Claim C4. With \<open>PCM2dOrig\<close> the values of \<open>argv[4]\<close> and \<open>argv[5]\<close> go through
  \<open>setPcm2DParams\<close>, the setter \<open>NoPCM\<close> uses, as odometry threshold and loop-closure
  threshold; with \<open>PCM2dSimp\<close> the same two values go through \<open>setPcmSimple2DParams\<close>, as
  translation and rotation threshold.
\<close>

theorem pcm2dorig_threshold_roles:
  assumes "8 \<le> length argv"
  shows "pcm_calls (run_params (main e (argv[1 := ''PCM2dOrig'']))) =
           [SetPcm2DParams (atof e (argv ! 4)) (atof e (argv ! 5)) (verbosity_arg argv)]
       \<and> map pcm_odo_thresh (pcm_calls (run_params (main e (argv[1 := ''PCM2dOrig''])))) =
           [atof e (argv ! 4)]
       \<and> map pcm_lc_thresh (pcm_calls (run_params (main e (argv[1 := ''PCM2dOrig''])))) =
           [atof e (argv ! 5)]
       \<and> pcm_calls (run_params (main e (argv[1 := ''NoPCM'']))) =
           [SetPcm2DParams double_max double_max (verbosity_arg argv)]
       \<and> pcm_calls (run_params (main e (argv[1 := ''PCM2dSimp'']))) =
           [SetPcmSimple2DParams (atof e (argv ! 4)) (atof e (argv ! 5)) (verbosity_arg argv)]"
proof -
  have len: "8 \<le> length (argv[1 := p])" for p
    using assms by simp
  have vb: "verbosity_arg (argv[1 := p]) = verbosity_arg argv" for p
    by (simp add: verbosity_arg_def)
  have pcm: "(argv[1 := p]) ! 1 = p" for p
    using assms by simp
  have t: "(argv[1 := p]) ! 4 = argv ! 4" and R: "(argv[1 := p]) ! 5 = argv ! 5" for p
    by simp_all
  have orig: "pcm_calls (run_params (main e (argv[1 := ''PCM2dOrig'']))) =
           [SetPcm2DParams (atof e (argv ! 4)) (atof e (argv ! 5)) (verbosity_arg argv)]"
    by (simp only: run_params_main [OF len] pcm t R vb pcm_calls_configure_PCM2dOrig
          pcm_calls_logOutput_select append_Nil)
  have nopcm: "pcm_calls (run_params (main e (argv[1 := ''NoPCM'']))) =
           [SetPcm2DParams double_max double_max (verbosity_arg argv)]"
    by (simp only: run_params_main [OF len] pcm t R vb pcm_calls_configure_NoPCM
          pcm_calls_logOutput_select append_Nil)
  have simple: "pcm_calls (run_params (main e (argv[1 := ''PCM2dSimp'']))) =
           [SetPcmSimple2DParams (atof e (argv ! 4)) (atof e (argv ! 5)) (verbosity_arg argv)]"
    by (simp only: run_params_main [OF len] pcm t R vb pcm_calls_configure_PCM2dSimp
          pcm_calls_logOutput_select append_Nil)
  show ?thesis
    using orig nopcm simple by simp
qed

theorem pcm2dorig_threshold_roles_witness:
  "8 \<le> length example_argv
   \<and> pcm_calls (run_params (main example_env (example_argv[1 := ''PCM2dOrig'']))) =
       [SetPcm2DParams 0x3FF0000000000000 0x3FE0000000000000 VERBOSE]
   \<and> pcm_calls (run_params (main example_env (example_argv[1 := ''PCM2dSimp'']))) =
       [SetPcmSimple2DParams 0x3FF0000000000000 0x3FE0000000000000 VERBOSE]"
  using pcm2dorig_threshold_roles [of example_argv example_env]
  by (simp add: example_argv_def example_env_def verbosity_arg_def)

text \<open>
  Claim C5. A PCM mode other than \<open>NoPCM\<close>, \<open>PCM2dSimp\<close> and \<open>PCM2dOrig\<close> does not end the
  run: the warning is logged, no PCM, max-clique or GNC setter is called (the solver gets
  the parameters as constructed, with the log output folder), and the program goes on to
  \<open>load2D\<close> on \<open>argv[3]\<close> and to \<open>Simulate\<close>; on a graph with a first factor whose first key
  has a value, \<open>update\<close> and \<open>saveData\<close> are called and the run ends normally.
\<close>

theorem unsupported_pcm_option_proceeds:
  assumes "8 \<le> length argv" and "argv ! 1 \<notin> {''NoPCM'', ''PCM2dSimp'', ''PCM2dOrig''}"
  shows "run_logger (main e argv) =
           logger (snd (select_max_clique_method (argv ! 7) \<lparr>logger = [], params = []\<rparr>)) @
             [(WARNING, ''Unsupported PCM option'')]
       \<and> run_params (main e argv) = [LogOutput (output_folder_arg argv)]
       \<and> calls (main e argv) =
           Load2D (argv ! 3) #
             (case load2D e (argv ! 3) of None \<Rightarrow> []
              | Some gv \<Rightarrow>
                  fst (Simulate getDim_Pose2 gv [LogOutput (output_folder_arg argv)]
                         (output_folder_arg argv)))
       \<and> (\<forall>f fs vs p. load2D e (argv ! 3) = Some (f # fs, vs) \<and> vs (front f) = Some p \<longrightarrow>
            calls (main e argv) =
              [Load2D (argv ! 3), RobustSolver [LogOutput (output_folder_arg argv)],
               Update ((f # fs) @
                  [PriorFactor (front f) p (Diagonal_Sigmas (replicate getDim_Pose2 double_zero))])
                 vs,
               SaveData (output_folder_arg argv)]
            \<and> status (main e argv) = None)"
proof -
  note ps = run_params_unsupported_pcm [OF assms, of e]
  have cs: "calls (main e argv) =
           Load2D (argv ! 3) #
             (case load2D e (argv ! 3) of None \<Rightarrow> []
              | Some gv \<Rightarrow>
                  fst (Simulate getDim_Pose2 gv [LogOutput (output_folder_arg argv)]
                         (output_folder_arg argv)))"
    by (simp only: calls_main [OF assms(1)] ps)
  have st: "status (main e argv) =
     (case load2D e (argv ! 3) of None \<Rightarrow> Some Load2DFailed
      | Some gv \<Rightarrow>
          snd (Simulate getDim_Pose2 gv [LogOutput (output_folder_arg argv)]
                 (output_folder_arg argv)))"
    by (simp only: status_main [OF assms(1)] ps)
  have solve: "calls (main e argv) =
              [Load2D (argv ! 3), RobustSolver [LogOutput (output_folder_arg argv)],
               Update ((f # fs) @
                  [PriorFactor (front f) p (Diagonal_Sigmas (replicate getDim_Pose2 double_zero))])
                 vs,
               SaveData (output_folder_arg argv)]
            \<and> status (main e argv) = None"
    if "load2D e (argv ! 3) = Some (f # fs, vs)" and "vs (front f) = Some p" for f fs vs p
    using that by (simp add: cs st Simulate_value)
  show ?thesis
    using run_logger_unsupported_pcm [OF assms, of e] ps cs solve by blast
qed

theorem unsupported_pcm_option_proceeds_witness:
  "8 \<le> length (example_argv[1 := ''PCM3d''])
   \<and> (example_argv[1 := ''PCM3d'']) ! 1 \<notin> {''NoPCM'', ''PCM2dSimp'', ''PCM2dOrig''}
   \<and> load2D example_env ((example_argv[1 := ''PCM3d'']) ! 3) = Some (example_graph, example_values)
   \<and> example_values (front (hd example_graph)) = Some (Pose2 0 0 0)
   \<and> run_logger (main example_env (example_argv[1 := ''PCM3d''])) =
       [(INFO, ''Max Clique Solver: PMC (Exact)''), (WARNING, ''Unsupported PCM option'')]
   \<and> run_params (main example_env (example_argv[1 := ''PCM3d''])) = [LogOutput ''out'']
   \<and> calls (main example_env (example_argv[1 := ''PCM3d''])) =
       [Load2D ''in.g2o'', RobustSolver [LogOutput ''out''],
        Update (example_graph @ [PriorFactor 0 (Pose2 0 0 0) (Diagonal_Sigmas [0, 0, 0])])
          example_values,
        SaveData ''out'']
   \<and> status (main example_env (example_argv[1 := ''PCM3d''])) = None"
  using unsupported_pcm_option_proceeds [of "example_argv[1 := ''PCM3d'']" example_env]
  by (simp add: example_argv_def example_env_def example_graph_def example_values_def
        output_folder_arg_def select_max_clique_method_def log_def getDim_Pose2_def
        double_zero_def numeral_3_eq_3 Simulate_def)

text \<open>
  Claim C10. In each of the three recognized PCM modes, a GNC argument other than \<open>NoGNC\<close>
  and \<open>GNC\<close> only adds the warning to the log: the GNC setter is not called, so the
  parameter object, and with it every solver the run builds, keeps the GNC threshold of
  its construction, whereas \<open>NoGNC\<close> in the same place sets it to the maximal double.
\<close>

theorem unsupported_gnc_option_sets_nothing:
  assumes "8 \<le> length argv" and "argv ! 1 \<in> {''NoPCM'', ''PCM2dSimp'', ''PCM2dOrig''}"
    and "argv ! 2 \<notin> {''NoGNC'', ''GNC''}"
  shows "gnc_calls (run_params (main e argv)) = []
       \<and> (\<forall>ps. RobustSolver ps \<in> set (calls (main e argv)) \<longrightarrow> gnc_calls ps = [])
       \<and> run_logger (main e argv) =
           logger (snd (select_max_clique_method (argv ! 7) \<lparr>logger = [], params = []\<rparr>)) @
             [(WARNING, ''Unsupported GNC option'')]
       \<and> gnc_calls (run_params (main e (argv[2 := ''NoGNC'']))) =
           [SetGncInlierCostThresholds double_max]"
proof -
  have len: "8 \<le> length (argv[2 := g])" for g
    using assms(1) by simp
  have pcm: "(argv[2 := g]) ! 1 \<in> {''NoPCM'', ''PCM2dSimp'', ''PCM2dOrig''}" for g
    using assms(2) by simp
  have gnc: "(argv[2 := g]) ! 2 = g" for g
    using assms(1) by simp
  have none: "gnc_calls (run_params (main e argv)) = []"
    by (simp only: run_params_main [OF assms(1)] gnc_calls_configure_unsupported [OF assms(3)]
          gnc_calls_logOutput_select)
  have lg: "run_logger (main e argv) =
           logger (snd (select_max_clique_method (argv ! 7) \<lparr>logger = [], params = []\<rparr>)) @
             [(WARNING, ''Unsupported GNC option'')]"
    by (simp only: run_logger_main [OF assms(1)]
          logger_configure_gnc_unsupported [OF assms(2) assms(3)])
       (simp add: logOutput_def)
  have pinned: "gnc_calls (run_params (main e (argv[2 := ''NoGNC'']))) =
           [SetGncInlierCostThresholds double_max]"
    by (simp only: run_params_main [OF len] gnc gnc_calls_configure_NoGNC [OF pcm]
          gnc_calls_logOutput_select append_Nil)
  show ?thesis
    using none lg pinned solver_gets_run_params [OF assms(1)] by blast
qed

theorem unsupported_gnc_option_sets_nothing_witness:
  "8 \<le> length (example_argv[2 := ''gnc''])
   \<and> (example_argv[2 := ''gnc'']) ! 1 \<in> {''NoPCM'', ''PCM2dSimp'', ''PCM2dOrig''}
   \<and> (example_argv[2 := ''gnc'']) ! 2 \<notin> {''NoGNC'', ''GNC''}
   \<and> RobustSolver
        [LogOutput ''out'', SetPcmSimple2DParams 0x3FF0000000000000 0x3FE0000000000000 VERBOSE,
         SetMaxCliqueMethod PMC_EXACT]
       \<in> set (calls (main example_env (example_argv[2 := ''gnc''])))
   \<and> gnc_calls (run_params (main example_env (example_argv[2 := ''gnc'']))) = []
   \<and> run_logger (main example_env (example_argv[2 := ''gnc''])) =
       [(INFO, ''Max Clique Solver: PMC (Exact)''), (WARNING, ''Unsupported GNC option'')]"
proof -
  have len: "8 \<le> length (example_argv[2 := ''gnc''])"
    by (simp add: example_argv_def)
  have g2o: "(example_argv[2 := ''gnc'']) ! 3 = ''in.g2o''"
    by (simp add: example_argv_def)
  have ps: "run_params (main example_env (example_argv[2 := ''gnc''])) =
        [LogOutput ''out'', SetPcmSimple2DParams 0x3FF0000000000000 0x3FE0000000000000 VERBOSE,
         SetMaxCliqueMethod PMC_EXACT]"
    by (simp only: run_params_main [OF len])
       (simp add: example_argv_def example_env_def configure_def setter_defs Let_def
          select_max_clique_method_def output_folder_arg_def verbosity_arg_def)
  have built: "RobustSolver
        [LogOutput ''out'', SetPcmSimple2DParams 0x3FF0000000000000 0x3FE0000000000000 VERBOSE,
         SetMaxCliqueMethod PMC_EXACT]
       \<in> set (calls (main example_env (example_argv[2 := ''gnc''])))"
    by (simp only: example_run_calls [OF len g2o] ps) simp
  show ?thesis
    using unsupported_gnc_option_sets_nothing
        [of "example_argv[2 := ''gnc'']" example_env] built
    by (simp add: example_argv_def select_max_clique_method_def log_def)
qed

subsection \<open>Reading and writing graphs (lines 161 to 168)\<close>

text \<open>
  Claim C6. The usage comment (lines 25 and 26) gives a second command line, for 3D
  graphs. On it the program reads no 3D graph and writes nothing: \<open>3d\<close> falls into the
  branch of the unsupported PCM options, the max-clique method is read from the place of
  the output file, \<open>load2D\<close> is called on \<open>argv[3]\<close>, which is the first threshold and
  names no file, and the run ends there; the graph file \<open>sphere.g2o\<close> is handed to no
  loader and \<open>saveData\<close> is not called.
\<close>

theorem main_3d_usage_reads_no_graph:
  "calls (main example_env usage_3d_argv) = [Load2D ''1.0'']
   \<and> status (main example_env usage_3d_argv) = Some Load2DFailed
   \<and> run_params (main example_env usage_3d_argv) = [LogOutput ''v'']
   \<and> run_logger (main example_env usage_3d_argv) =
       [(WARNING, ''Unsupported Max Clique Method (options are: pmc_exct, pmc_heu, clipper) ''),
        (INFO, ''Max Clique Solver: PMC (Heuristic)''),
        (WARNING, ''Unsupported PCM option'')]"
proof -
  have len: "8 \<le> length usage_3d_argv"
    by (simp add: usage_3d_argv_def)
  have pcm: "usage_3d_argv ! 1 \<notin> {''NoPCM'', ''PCM2dSimp'', ''PCM2dOrig''}"
    by (simp add: usage_3d_argv_def)
  have ps: "run_params (main example_env usage_3d_argv) = [LogOutput ''v'']"
    by (simp only: run_params_unsupported_pcm [OF len pcm])
       (simp add: output_folder_arg_def usage_3d_argv_def)
  have lg: "run_logger (main example_env usage_3d_argv) =
       [(WARNING, ''Unsupported Max Clique Method (options are: pmc_exct, pmc_heu, clipper) ''),
        (INFO, ''Max Clique Solver: PMC (Heuristic)''),
        (WARNING, ''Unsupported PCM option'')]"
    by (simp only: run_logger_unsupported_pcm [OF len pcm])
       (simp add: usage_3d_argv_def select_max_clique_method_def log_def)
  have cs: "calls (main example_env usage_3d_argv) = [Load2D ''1.0'']"
    by (simp only: calls_main [OF len]) (simp add: usage_3d_argv_def example_env_def)
  have st: "status (main example_env usage_3d_argv) = Some Load2DFailed"
    by (simp only: status_main [OF len]) (simp add: usage_3d_argv_def example_env_def)
  show ?thesis
    using ps lg cs st by simp
qed

subsection \<open>Simulate (lines 28 to 55)\<close>

text \<open>
  Claim C7, as stated, fails. On a graph without factors \<open>nfg[0]\<close> ends the run before
  line 52: neither \<open>update\<close> nor \<open>saveData\<close> is called. A g2o file without edges gives such
  a run of the whole program.
\<close>

theorem Simulate_empty_graph_counterexample:
  "Simulate getDim_Pose2 ([] :: Pose2 NonlinearFactorGraph, Map.empty) [] ''out'' =
     ([RobustSolver []], Some FactorIndexOutOfRange)
   \<and> filter is_update (calls (main example_env (example_argv[3 := ''empty.g2o'']))) = []
   \<and> filter is_saveData (calls (main example_env (example_argv[3 := ''empty.g2o'']))) = []
   \<and> status (main example_env (example_argv[3 := ''empty.g2o''])) = Some FactorIndexOutOfRange"
  by (simp add: Simulate_empty calls_main status_main example_argv_def example_env_def)

text \<open>
  Claim C7, amended. On a graph that has a first factor whose first key has a value,
  \<open>Simulate\<close> builds the solver, calls \<open>update\<close> exactly once and then \<open>saveData\<close> exactly
  once, in this order, and returns. On every other input it ends at the graph or value
  access, after building the solver, and calls neither.
\<close>

theorem Simulate_update_then_saveData:
  "(\<forall>f fs p. fst gv = f # fs \<and> snd gv (front f) = Some p \<longrightarrow>
      (\<exists>g. Simulate d gv ps out =
             ([RobustSolver ps, Update g (snd gv), SaveData out], None))
      \<and> length (filter is_update (fst (Simulate d gv ps out))) = 1
      \<and> length (filter is_saveData (fst (Simulate d gv ps out))) = 1)
   \<and> (fst gv = [] \<or> (\<exists>f fs. fst gv = f # fs \<and> snd gv (front f) = None) \<longrightarrow>
      (\<exists>err. Simulate d gv ps out = ([RobustSolver ps], Some err))
      \<and> filter is_update (fst (Simulate d gv ps out)) = []
      \<and> filter is_saveData (fst (Simulate d gv ps out)) = [])"
proof (cases gv)
  case (Pair nfg vs)
  show ?thesis
  proof (cases nfg)
    case Nil
    with Pair show ?thesis
      by (simp add: Simulate_empty)
  next
    case (Cons f fs)
    show ?thesis
    proof (cases "vs (front f)")
      case None
      with Pair Cons show ?thesis
        by (simp add: Simulate_no_value)
    next
      case (Some p)
      with Pair Cons show ?thesis
        by (simp add: Simulate_value)
    qed
  qed
qed

theorem Simulate_update_then_saveData_witness:
  "fst (example_graph, example_values) = hd example_graph # tl example_graph
   \<and> snd (example_graph, example_values) (front (hd example_graph)) = Some (Pose2 0 0 0)
   \<and> (\<exists>g. Simulate getDim_Pose2 (example_graph, example_values) [] ''out'' =
             ([RobustSolver [], Update g example_values, SaveData ''out''], None))
   \<and> length (filter is_update
        (fst (Simulate getDim_Pose2 (example_graph, example_values) [] ''out''))) = 1
   \<and> length (filter is_saveData
        (fst (Simulate getDim_Pose2 (example_graph, example_values) [] ''out''))) = 1
   \<and> fst ([] :: Pose2 NonlinearFactorGraph, example_values) = []
   \<and> (\<exists>err. Simulate getDim_Pose2 ([] :: Pose2 NonlinearFactorGraph, example_values) [] ''out'' =
             ([RobustSolver []], Some err))"
  using Simulate_update_then_saveData
      [of "(example_graph, example_values)" getDim_Pose2 "[]" "''out''"]
    Simulate_update_then_saveData
      [of "([] :: Pose2 NonlinearFactorGraph, example_values)" getDim_Pose2 "[]" "''out''"]
  by (simp add: example_graph_def example_values_def)

text \<open>
  Claim C9. Every \<open>update\<close> call of \<open>Simulate\<close> gets the loaded values and the loaded
  factors followed by one more factor: a prior on the first key of the first loaded
  factor (\<open>k1\<close> when this factor is a between factor from \<open>k1\<close> to \<open>k2\<close>), at the loaded
  value of this key, with the diagonal noise model of \<open>getDim\<close> sigmas that are all zero.
  Where the graph has a first factor whose first key has a value, this is the one
  \<open>update\<close> call made.
\<close>

theorem Simulate_adds_zero_sigma_prior:
  fixes nfg :: "'p NonlinearFactorGraph"
  shows "(\<forall>g v. Update g v \<in> set (fst (Simulate d (nfg, vs) ps out)) \<longrightarrow>
      (\<exists>f fs p. nfg = f # fs \<and> vs (front f) = Some p \<and> v = vs \<and>
         g = nfg @ [PriorFactor (front f) p (Diagonal_Sigmas (replicate d double_zero))]))
   \<and> (\<forall>f fs p. nfg = f # fs \<and> vs (front f) = Some p \<longrightarrow>
        filter is_update (fst (Simulate d (nfg, vs) ps out)) =
          [Update (nfg @ [PriorFactor (front f) p (Diagonal_Sigmas (replicate d double_zero))])
             vs])
   \<and> (\<forall>k1 k2 z n fs p. nfg = BetweenFactor k1 k2 z n # fs \<and> vs k1 = Some p \<longrightarrow>
        filter is_update (fst (Simulate d (nfg, vs) ps out)) =
          [Update (BetweenFactor k1 k2 z n # fs @
                     [PriorFactor k1 p (Diagonal_Sigmas (replicate d 0))]) vs])
   \<and> (\<forall>k z n fs p. nfg = PriorFactor k z n # fs \<and> vs k = Some p \<longrightarrow>
        filter is_update (fst (Simulate d (nfg, vs) ps out)) =
          [Update (PriorFactor k z n # fs @
                     [PriorFactor k p (Diagonal_Sigmas (replicate d 0))]) vs])
   \<and> (\<forall>k1 k2 (z :: 'p) n. front (BetweenFactor k1 k2 z n) = k1)
   \<and> (\<forall>k (z :: 'p) n. front (PriorFactor k z n) = k)"
proof -
  have every: "\<forall>g v. Update g v \<in> set (fst (Simulate d (nfg, vs) ps out)) \<longrightarrow>
      (\<exists>f fs p. nfg = f # fs \<and> vs (front f) = Some p \<and> v = vs \<and>
         g = nfg @ [PriorFactor (front f) p (Diagonal_Sigmas (replicate d double_zero))])"
  proof (cases nfg)
    case Nil
    then show ?thesis
      by (simp add: Simulate_empty)
  next
    case (Cons f fs)
    then show ?thesis
      by (cases "vs (front f)") (simp_all add: Simulate_no_value Simulate_value)
  qed
  have one: "\<forall>f fs p. nfg = f # fs \<and> vs (front f) = Some p \<longrightarrow>
        filter is_update (fst (Simulate d (nfg, vs) ps out)) =
          [Update (nfg @ [PriorFactor (front f) p (Diagonal_Sigmas (replicate d double_zero))])
             vs]"
    by (simp add: Simulate_value)
  have between: "\<forall>k1 k2 z n fs p. nfg = BetweenFactor k1 k2 z n # fs \<and> vs k1 = Some p \<longrightarrow>
        filter is_update (fst (Simulate d (nfg, vs) ps out)) =
          [Update (BetweenFactor k1 k2 z n # fs @
                     [PriorFactor k1 p (Diagonal_Sigmas (replicate d 0))]) vs]"
    by (simp add: Simulate_value double_zero_def)
  have prior: "\<forall>k z n fs p. nfg = PriorFactor k z n # fs \<and> vs k = Some p \<longrightarrow>
        filter is_update (fst (Simulate d (nfg, vs) ps out)) =
          [Update (PriorFactor k z n # fs @
                     [PriorFactor k p (Diagonal_Sigmas (replicate d 0))]) vs]"
    by (simp add: Simulate_value double_zero_def)
  have fr: "\<forall>k1 k2 (z :: 'p) n. front (BetweenFactor k1 k2 z n) = k1"
    "\<forall>k (z :: 'p) n. front (PriorFactor k z n) = k"
    by simp_all
  from every one between prior fr show ?thesis
    by (intro conjI)
qed

theorem Simulate_adds_zero_sigma_prior_witness:
  "anchor_graph =
     BetweenFactor 7 3 (Pose2 0x3FF0000000000000 0 0) (Gaussian_Information []) #
     tl anchor_graph
   \<and> anchor_values 7 = Some (Pose2 0x3FF0000000000000 0x3FE0000000000000 0x4000000000000000)
   \<and> anchor_values 3 = Some (Pose2 0x4000000000000000 0x3FE0000000000000 0)
   \<and> anchor_values 0 = Some (Pose2 0 0 0)
   \<and> fst (Simulate getDim_Pose2 (anchor_graph, anchor_values) [] ''out'') =
       [RobustSolver [],
        Update
          [BetweenFactor 7 3 (Pose2 0x3FF0000000000000 0 0) (Gaussian_Information []),
           BetweenFactor 0 7 (Pose2 0 0x3FF0000000000000 0) (Gaussian_Information []),
           PriorFactor 7 (Pose2 0x3FF0000000000000 0x3FE0000000000000 0x4000000000000000)
             (Diagonal_Sigmas [0, 0, 0])]
          anchor_values,
        SaveData ''out'']
   \<and> filter is_update (fst (Simulate getDim_Pose2 (anchor_graph, anchor_values) [] ''out'')) =
       [Update
          [BetweenFactor 7 3 (Pose2 0x3FF0000000000000 0 0) (Gaussian_Information []),
           BetweenFactor 0 7 (Pose2 0 0x3FF0000000000000 0) (Gaussian_Information []),
           PriorFactor 7 (Pose2 0x3FF0000000000000 0x3FE0000000000000 0x4000000000000000)
             (Diagonal_Sigmas [0, 0, 0])]
          anchor_values]"
proof -
  have val: "anchor_values 7 =
      Some (Pose2 0x3FF0000000000000 0x3FE0000000000000 0x4000000000000000)"
    "anchor_values 3 = Some (Pose2 0x4000000000000000 0x3FE0000000000000 0)"
    "anchor_values 0 = Some (Pose2 0 0 0)"
    by (simp_all add: anchor_values_def)
  have run: "fst (Simulate getDim_Pose2 (anchor_graph, anchor_values) [] ''out'') =
       [RobustSolver [],
        Update
          [BetweenFactor 7 3 (Pose2 0x3FF0000000000000 0 0) (Gaussian_Information []),
           BetweenFactor 0 7 (Pose2 0 0x3FF0000000000000 0) (Gaussian_Information []),
           PriorFactor 7 (Pose2 0x3FF0000000000000 0x3FE0000000000000 0x4000000000000000)
             (Diagonal_Sigmas [0, 0, 0])]
          anchor_values,
        SaveData ''out'']"
    by (simp add: anchor_graph_def Simulate_value [OF trans [OF _ val(1)]] getDim_Pose2_def
          double_zero_def numeral_3_eq_3)
  show ?thesis
    using Simulate_adds_zero_sigma_prior
        [of getDim_Pose2 anchor_graph anchor_values "[]" "''out''"] val run
    by (simp add: anchor_graph_def getDim_Pose2_def numeral_3_eq_3)
qed

end
